theory Spec2Isabelle
  imports Complex_Main
begin

section \<open>Collaboration core (main.py)\<close>

text \<open>
  Identifiers produced by \<open>uuid4()\<close> are modelled as natural numbers drawn from a counter
  kept in the server state, so that every call yields an identifier never handed out
  before. Instants (\<open>datetime.utcnow()\<close>, SQL \<open>NOW()\<close>) are whole seconds on one clock.
  The Redis key \<open>lock:twin:<twin_id>\<close> is determined by the twin id, so the key space of
  the lock records is the twin id itself.
\<close>

type_synonym uuid = nat
type_synonym instant = nat

subsection \<open>Data model\<close>

text \<open>The JSON document \<open>lock_data\<close> that \<open>acquire_lock\<close> stores under the twin's key.\<close>

record lock_data =
  ld_lock_id :: uuid
  ld_twin_id :: uuid
  ld_user_id :: uuid
  ld_session_id :: uuid
  ld_components :: "string list"
  ld_lock_type :: string
  ld_acquired_at :: instant
  ld_expires_at :: instant

text \<open>
  A row of the SQL table \<open>edit_locks\<close>. The \<open>INSERT\<close> of \<open>acquire_lock\<close> names seven
  columns; \<open>heartbeat_at\<close> and \<open>is_active\<close> are read and written by \<open>heartbeat_lock\<close> and
  \<open>release_lock\<close>.
  Modelled from the spec: the table declaration is not part of the sources; a fresh row is
  active (lifecycle \<open>acquired \<rightarrow> (heartbeats) \<rightarrow> released | expired\<close>) and its
  \<open>heartbeat_at\<close> starts at the insertion instant.
\<close>

record edit_lock_row =
  el_lock_id :: uuid
  el_twin_id :: uuid
  el_user_id :: uuid
  el_session_id :: uuid
  el_lock_type :: string
  el_locked_components :: "string list"
  el_expires_at :: instant
  el_heartbeat_at :: instant
  el_is_active :: bool

text \<open>
  The part of the server state the lock manager touches: the Redis keys with their
  absolute expiry instants, the \<open>edit_locks\<close> table in insertion order, the clock and the
  identifier counter.
\<close>

record lock_state =
  redis :: "uuid \<rightharpoonup> (lock_data \<times> instant)"
  edit_locks :: "edit_lock_row list"
  clock :: instant
  uuid_counter :: uuid

definition initial_state :: lock_state where
  "initial_state = \<lparr>redis = Map.empty, edit_locks = [], clock = 0, uuid_counter = 0\<rparr>"

subsection \<open>Redis commands used by the lock manager\<close>

text \<open>\<open>GET key\<close>: a key whose time to live has run out is absent.\<close>

definition redis_get :: "lock_state \<Rightarrow> uuid \<Rightarrow> lock_data option" where
  "redis_get s k =
     (case redis s k of
        None \<Rightarrow> None
      | Some (v, e) \<Rightarrow> if clock s < e then Some v else None)"

text \<open>\<open>SET key value NX EX ttl\<close>: stores only when the key is absent; tells whether it stored.\<close>

definition redis_set_nx_ex :: "uuid \<Rightarrow> lock_data \<Rightarrow> nat \<Rightarrow> lock_state \<Rightarrow> bool \<times> lock_state" where
  "redis_set_nx_ex k v ttl s =
     (case redis_get s k of
        Some _ \<Rightarrow> (False, s)
      | None \<Rightarrow> (True, s\<lparr>redis := (redis s)(k \<mapsto> (v, clock s + ttl))\<rparr>))"

definition redis_delete :: "uuid \<Rightarrow> lock_state \<Rightarrow> lock_state" where
  "redis_delete k s = s\<lparr>redis := (redis s)(k := None)\<rparr>"

text \<open>\<open>EXPIRE key ttl\<close>: restarts the time to live of a present key, does nothing otherwise.\<close>

definition redis_expire :: "uuid \<Rightarrow> nat \<Rightarrow> lock_state \<Rightarrow> lock_state" where
  "redis_expire k ttl s =
     (case redis_get s k of
        None \<Rightarrow> s
      | Some v \<Rightarrow> s\<lparr>redis := (redis s)(k \<mapsto> (v, clock s + ttl))\<rparr>)"

subsection \<open>LockManager\<close>

text \<open>
  \<open>acquire_lock\<close>. The result \<open>None\<close> is Python's \<open>return None\<close> (reported as 409 Conflict
  by the endpoint), \<open>Some lock_id\<close> the identifier of the lock installed. The identifier
  is drawn before anything else, as in the source. Time to live is positive (the endpoint
  always passes the default 300).
\<close>

definition acquire_store :: "uuid \<Rightarrow> uuid \<Rightarrow> uuid \<Rightarrow> uuid \<Rightarrow> string list \<Rightarrow> string \<Rightarrow> nat \<Rightarrow>
    lock_state \<Rightarrow> uuid option \<times> lock_state" where
  "acquire_store lock_id twin_id user_id session_id components lock_type timeout s =
     (let lock_data = \<lparr>ld_lock_id = lock_id, ld_twin_id = twin_id, ld_user_id = user_id,
                        ld_session_id = session_id, ld_components = components,
                        ld_lock_type = lock_type, ld_acquired_at = clock s,
                        ld_expires_at = clock s + timeout\<rparr>;
          (set_result, s1) = redis_set_nx_ex twin_id lock_data timeout s
      in if \<not> set_result then (None, s1)
         else (Some lock_id,
               s1\<lparr>edit_locks := edit_locks s1 @
                    [\<lparr>el_lock_id = lock_id, el_twin_id = twin_id, el_user_id = user_id,
                      el_session_id = session_id, el_lock_type = lock_type,
                      el_locked_components = components,
                      el_expires_at = clock s1 + timeout,
                      el_heartbeat_at = clock s1, el_is_active = True\<rparr>]\<rparr>))"

definition acquire_lock :: "uuid \<Rightarrow> uuid \<Rightarrow> uuid \<Rightarrow> string list \<Rightarrow> string \<Rightarrow> nat \<Rightarrow>
    lock_state \<Rightarrow> uuid option \<times> lock_state" where
  "acquire_lock twin_id user_id session_id components lock_type timeout s0 =
     (let lock_id = uuid_counter s0;
          s = s0\<lparr>uuid_counter := Suc lock_id\<rparr>
      in case redis_get s twin_id of
           Some existing_data \<Rightarrow>
             if lock_type = ''exclusive''
                \<and> set (ld_components existing_data) \<inter> set components \<noteq> {}
             then (None, s)
             else if ld_lock_type existing_data = ''exclusive''
             then (None, s)
             else acquire_store lock_id twin_id user_id session_id components lock_type timeout s
         | None \<Rightarrow>
             acquire_store lock_id twin_id user_id session_id components lock_type timeout s)"

text \<open>\<open>fetchrow(... WHERE lock_id = $1)\<close>: the first matching row, if any.\<close>

definition fetch_lock :: "lock_state \<Rightarrow> uuid \<Rightarrow> edit_lock_row option" where
  "fetch_lock s lock_id = find (\<lambda>r. el_lock_id r = lock_id) (edit_locks s)"

text \<open>
  \<open>release_lock\<close>: \<open>False\<close> when no row carries the identifier; otherwise the twin's key is
  deleted, every row with the identifier is marked inactive and the result is \<open>True\<close>.
\<close>

definition release_lock :: "uuid \<Rightarrow> lock_state \<Rightarrow> bool \<times> lock_state" where
  "release_lock lock_id s =
     (case fetch_lock s lock_id of
        None \<Rightarrow> (False, s)
      | Some lock \<Rightarrow>
          (let s1 = redis_delete (el_twin_id lock) s
           in (True,
               s1\<lparr>edit_locks :=
                    map (\<lambda>r. if el_lock_id r = lock_id then r\<lparr>el_is_active := False\<rparr> else r)
                        (edit_locks s1)\<rparr>)))"

text \<open>
  What a heartbeat can tell its caller according to the contract
  \<open>heartbeat(lock_id) \<rightarrow> ok | Expired | NotFound\<close>. \<open>heartbeat_lock\<close> has no \<open>return\<close>
  statement: its result is Python's \<open>None\<close>, here \<open>None\<close> of the option type.
\<close>

datatype heartbeat_signal = HeartbeatOk | Expired | LockNotFound

definition heartbeat_lock :: "uuid \<Rightarrow> lock_state \<Rightarrow> heartbeat_signal option \<times> lock_state" where
  "heartbeat_lock lock_id s =
     (let s1 = s\<lparr>edit_locks :=
                   map (\<lambda>r. if el_lock_id r = lock_id \<and> el_is_active r
                            then r\<lparr>el_heartbeat_at := clock s\<rparr> else r)
                       (edit_locks s)\<rparr>
      in case fetch_lock s1 lock_id of
           None \<Rightarrow> (None, s1)
         | Some lock \<Rightarrow> (None, redis_expire (el_twin_id lock) 300 s1))"

text \<open>
  One round of \<open>cleanup_stale_locks\<close>: the task only runs \<open>SELECT release_stale_locks()\<close>.
  Modelled from the spec: the SQL function \<open>release_stale_locks\<close> is not part of the
  sources; it marks inactive the locks whose \<open>heartbeat_at + grace < now\<close> or
  \<open>expires_at < now\<close>. The grace period is a parameter. The task issues no Redis command.
\<close>

definition release_stale_locks :: "nat \<Rightarrow> lock_state \<Rightarrow> lock_state" where
  "release_stale_locks grace s =
     s\<lparr>edit_locks :=
         map (\<lambda>r. if el_is_active r
                     \<and> (el_heartbeat_at r + grace < clock s \<or> el_expires_at r < clock s)
                  then r\<lparr>el_is_active := False\<rparr> else r)
             (edit_locks s)\<rparr>"

definition cleanup_stale_locks :: "nat \<Rightarrow> lock_state \<Rightarrow> lock_state" where
  "cleanup_stale_locks grace s = release_stale_locks grace s"

text \<open>Time passing between two calls.\<close>

definition advance :: "nat \<Rightarrow> lock_state \<Rightarrow> lock_state" where
  "advance d s = s\<lparr>clock := clock s + d\<rparr>"

text \<open>
  The states the lock manager can be in: everything obtained from the empty store by
  \<open>acquire_lock\<close>, \<open>release_lock\<close>, \<open>heartbeat_lock\<close>, rounds of the stale-lock task and
  the passing of time (which is what lets a Redis key expire).
\<close>

inductive reachable :: "lock_state \<Rightarrow> bool" where
  reach_init: "reachable initial_state"
| reach_acquire: "reachable s \<Longrightarrow> 0 < timeout \<Longrightarrow>
     reachable (snd (acquire_lock twin_id user_id session_id components lock_type timeout s))"
| reach_release: "reachable s \<Longrightarrow> reachable (snd (release_lock lock_id s))"
| reach_heartbeat: "reachable s \<Longrightarrow> reachable (snd (heartbeat_lock lock_id s))"
| reach_cleanup: "reachable s \<Longrightarrow> reachable (cleanup_stale_locks grace s)"
| reach_advance: "reachable s \<Longrightarrow> reachable (advance d s)"

text \<open>
  The exclusion property of a collection of locks: no exclusive lock shares a component
  with another lock (exclusive or shared) of the same twin.
\<close>

definition overlapping :: "edit_lock_row \<Rightarrow> edit_lock_row \<Rightarrow> bool" where
  "overlapping r1 r2 = (set (el_locked_components r1) \<inter> set (el_locked_components r2) \<noteq> {})"

definition exclusion_holds :: "edit_lock_row list \<Rightarrow> bool" where
  "exclusion_holds rows =
     (\<forall>r1 \<in> set rows. \<forall>r2 \<in> set rows.
        r1 \<noteq> r2 \<and> el_twin_id r1 = el_twin_id r2 \<and> el_lock_type r1 = ''exclusive''
          \<longrightarrow> \<not> overlapping r1 r2)"

text \<open>The locks flagged active in SQL.\<close>

definition active_locks :: "lock_state \<Rightarrow> edit_lock_row list" where
  "active_locks s = filter el_is_active (edit_locks s)"

text \<open>
  The locks that are flagged active in SQL and whose record is the one currently stored,
  unexpired, under the twin's Redis key.
\<close>

definition holds_key :: "lock_state \<Rightarrow> edit_lock_row \<Rightarrow> bool" where
  "holds_key s r =
     (case redis_get s (el_twin_id r) of
        None \<Rightarrow> False
      | Some lock_data \<Rightarrow> ld_lock_id lock_data = el_lock_id r)"

definition live_locks :: "lock_state \<Rightarrow> edit_lock_row list" where
  "live_locks s = filter (\<lambda>r. el_is_active r \<and> holds_key s r) (edit_locks s)"

subsection \<open>HTTP endpoints of the lock manager\<close>

datatype http_error = BadRequest | Unauthorized | NotFound | Conflict

text \<open>
  \<open>POST /locks/acquire\<close>: \<open>session\<close> is the result of the \<open>user_sessions\<close> lookup.
\<close>

definition http_acquire_lock :: "uuid \<Rightarrow> string list \<Rightarrow> string \<Rightarrow> uuid \<Rightarrow> uuid option \<Rightarrow>
    lock_state \<Rightarrow> (http_error + uuid) \<times> lock_state" where
  "http_acquire_lock twin_id components lock_type user_id session s =
     (case session of
        None \<Rightarrow> (Inl BadRequest, s)
      | Some session_id \<Rightarrow>
          (case acquire_lock twin_id user_id session_id components lock_type 300 s of
             (None, s1) \<Rightarrow> (Inl Conflict, s1)
           | (Some lock_id, s1) \<Rightarrow> (Inr lock_id, s1)))"

text \<open>\<open>DELETE /locks/{lock_id}\<close>.\<close>

definition http_release_lock :: "uuid \<Rightarrow> lock_state \<Rightarrow> (http_error + string) \<times> lock_state" where
  "http_release_lock lock_id s =
     (case release_lock lock_id s of
        (False, s1) \<Rightarrow> (Inl NotFound, s1)
      | (True, s1) \<Rightarrow> (Inr ''released'', s1))"

subsection \<open>Scenarios of the lock manager\<close>

text \<open>Twin 7 carries a shared lock on component \<open>a\<close>.\<close>

definition shared_held :: lock_state where
  "shared_held = snd (acquire_lock 7 1 1 [''a''] ''shared'' 300 initial_state)"

text \<open>
  Lock 0 on twin 7 was acquired and released by user 1; user 2 then acquired lock 1 on the
  same component.
\<close>

definition second_holder :: lock_state where
  "second_holder =
     snd (acquire_lock 7 2 2 [''chassis.bolt1''] ''exclusive'' 300
       (snd (release_lock 0
         (snd (acquire_lock 7 1 1 [''chassis.bolt1''] ''exclusive'' 300 initial_state)))))"

text \<open>... after which lock 0 is released once more and user 3 acquires lock 2.\<close>

definition third_holder :: lock_state where
  "third_holder =
     snd (acquire_lock 7 3 3 [''chassis.bolt1''] ''exclusive'' 300
       (snd (release_lock 0 second_holder)))"

text \<open>Lock 0 on twin 7 was acquired for 300 seconds and 301 seconds have passed.\<close>

definition key_lapsed :: lock_state where
  "key_lapsed =
     advance 301 (snd (acquire_lock 7 1 1 [''chassis.bolt1''] ''exclusive'' 300 initial_state))"

text \<open>Lock 0 on twin 7 was acquired for 300 seconds and 200 seconds have passed.\<close>

definition key_held :: lock_state where
  "key_held =
     advance 200 (snd (acquire_lock 7 1 1 [''chassis.bolt1''] ''exclusive'' 300 initial_state))"

subsection \<open>ConnectionManager\<close>

text \<open>
  The request body of \<open>POST /edit-operations\<close>. The JSON payload \<open>operation_data\<close> is opaque
  text; the vector clock maps user names to counters.
\<close>

record EditOperation =
  eo_twin_id :: uuid
  eo_operation_type :: string
  eo_component_path :: string
  eo_operation_data :: string
  eo_vector_clock :: "(string \<times> int) list option"

text \<open>
  The Python values that occur in the messages handed to \<open>send_json\<close>. \<open>PyUUID\<close> is a
  \<open>UUID\<close> object, \<open>PyUUIDText\<close> the string \<open>str(uuid)\<close>, \<open>PyJson\<close> a value that was
  decoded from a JSON body (kept as its text), \<open>PyDict\<close> a dictionary with its items in
  order.
\<close>

datatype pyvalue =
    PyNone
  | PyInt int
  | PyStr string
  | PyUUID uuid
  | PyUUIDText uuid
  | PyJson string
  | PyDict "(string \<times> pyvalue) list"

text \<open>
  Whether \<open>json.dumps\<close> accepts a value: it raises \<open>TypeError\<close> on a \<open>UUID\<close> object,
  wherever in the value it sits.
\<close>

fun json_serializable :: "pyvalue \<Rightarrow> bool" where
  "json_serializable (PyUUID u) = False"
| "json_serializable (PyDict items) = list_all (\<lambda>kv. json_serializable (snd kv)) items"
| "json_serializable v = True"

text \<open>
  A websocket as the server sees it: the messages sent on it so far, oldest first, and
  whether the peer is still there. \<open>send_json\<close> first serialises the message with
  \<open>json.dumps\<close>, which raises \<open>TypeError\<close> on a message that is not serialisable, and
  then sends the text, which raises on a dead peer.
\<close>

record websocket =
  ws_alive :: bool
  ws_sent :: "pyvalue list"

datatype send_error = TypeError | PeerGone

definition send_json :: "websocket \<Rightarrow> pyvalue \<Rightarrow> send_error + websocket" where
  "send_json ws message =
     (if \<not> json_serializable message then Inl TypeError
      else if ws_alive ws then Inr (ws\<lparr>ws_sent := ws_sent ws @ [message]\<rparr>)
      else Inl PeerGone)"

text \<open>
  The three dictionaries of the manager. A Python set of session ids is the list of its
  elements, without repetition, in the order the loop of \<open>broadcast_to_twin\<close> visits them.
\<close>

record connection_manager =
  active_connections :: "string \<rightharpoonup> websocket"
  user_sessions :: "uuid \<rightharpoonup> string list"
  twin_subscribers :: "uuid \<rightharpoonup> string list"

definition empty_manager :: connection_manager where
  "empty_manager =
     \<lparr>active_connections = Map.empty, user_sessions = Map.empty, twin_subscribers = Map.empty\<rparr>"

text \<open>\<open>set.add\<close> on the list representation.\<close>

definition set_add :: "'a \<Rightarrow> 'a list \<Rightarrow> 'a list" where
  "set_add x xs = (if x \<in> set xs then xs else xs @ [x])"

definition connect :: "websocket \<Rightarrow> string \<Rightarrow> uuid \<Rightarrow> connection_manager \<Rightarrow> connection_manager" where
  "connect websocket session_id user_id m =
     m\<lparr>active_connections := (active_connections m)(session_id \<mapsto> websocket),
       user_sessions := (user_sessions m)(user_id \<mapsto>
          set_add session_id (case user_sessions m user_id of None \<Rightarrow> [] | Some ss \<Rightarrow> ss))\<rparr>"

definition subscribe_to_twin :: "string \<Rightarrow> uuid \<Rightarrow> connection_manager \<Rightarrow> connection_manager" where
  "subscribe_to_twin session_id twin_id m =
     m\<lparr>twin_subscribers := (twin_subscribers m)(twin_id \<mapsto>
          set_add session_id (case twin_subscribers m twin_id of None \<Rightarrow> [] | Some ss \<Rightarrow> ss))\<rparr>"

text \<open>
  The loop of \<open>broadcast_to_twin\<close> over the subscribers still to visit: it carries the
  connections and the list \<open>disconnected\<close>.
\<close>

fun broadcast_loop :: "pyvalue \<Rightarrow> string option \<Rightarrow> string list \<Rightarrow> (string \<rightharpoonup> websocket) \<Rightarrow>
    string list \<Rightarrow> (string \<rightharpoonup> websocket) \<times> string list" where
  "broadcast_loop message exclude_session [] conns disconnected = (conns, disconnected)"
| "broadcast_loop message exclude_session (session_id # rest) conns disconnected =
     (if Some session_id = exclude_session
      then broadcast_loop message exclude_session rest conns disconnected
      else case conns session_id of
             None \<Rightarrow> broadcast_loop message exclude_session rest conns disconnected
           | Some ws \<Rightarrow>
               (case send_json ws message of
                  Inr ws' \<Rightarrow>
                    broadcast_loop message exclude_session rest (conns(session_id \<mapsto> ws'))
                      disconnected
                | Inl e \<Rightarrow>
                    broadcast_loop message exclude_session rest conns
                      (disconnected @ [session_id])))"

definition broadcast_to_twin :: "uuid \<Rightarrow> pyvalue \<Rightarrow> string option \<Rightarrow> connection_manager \<Rightarrow>
    connection_manager" where
  "broadcast_to_twin twin_id message exclude_session m =
     (case twin_subscribers m twin_id of
        None \<Rightarrow> m
      | Some subscribers \<Rightarrow>
          (let (conns, disconnected) =
                 broadcast_loop message exclude_session subscribers (active_connections m) []
           in m\<lparr>active_connections := conns,
                twin_subscribers := (twin_subscribers m)(twin_id \<mapsto>
                   filter (\<lambda>session_id. session_id \<notin> set disconnected) subscribers)\<rparr>))"

subsection \<open>Edit pipeline\<close>

text \<open>A row of the append-only table \<open>edit_operations\<close>, as the \<open>INSERT\<close> writes it.\<close>

record edit_operation_row =
  er_operation_id :: uuid
  er_twin_id :: uuid
  er_user_id :: uuid
  er_operation_type :: string
  er_component_path :: string
  er_operation_data :: string
  er_vector_clock :: "(string \<times> int) list"

record server =
  locks :: lock_state
  edit_operations :: "edit_operation_row list"
  manager :: connection_manager

text \<open>
  \<open>operation.dict()\<close>: the fields of the request as Python values. The twin id stays a
  \<open>UUID\<close> object.
\<close>

definition EditOperation_dict :: "EditOperation \<Rightarrow> pyvalue" where
  "EditOperation_dict operation =
     PyDict [(''twin_id'', PyUUID (eo_twin_id operation)),
             (''operation_type'', PyStr (eo_operation_type operation)),
             (''component_path'', PyStr (eo_component_path operation)),
             (''operation_data'', PyJson (eo_operation_data operation)),
             (''vector_clock'',
                (case eo_vector_clock operation of
                   None \<Rightarrow> PyNone
                 | Some vc \<Rightarrow> PyDict (map (\<lambda>kn. (fst kn, PyInt (snd kn))) vc)))]"

text \<open>
  The message \<open>submit_edit_operation\<close> broadcasts: the operation id and the user id are
  passed through \<open>str\<close>, the operation is \<open>operation.dict()\<close> as it is.
\<close>

definition edit_operation_message :: "uuid \<Rightarrow> uuid \<Rightarrow> EditOperation \<Rightarrow> pyvalue" where
  "edit_operation_message operation_id user_id operation =
     PyDict [(''type'', PyStr ''edit_operation''),
             (''operation_id'', PyUUIDText operation_id),
             (''user_id'', PyUUIDText user_id),
             (''operation'', EditOperation_dict operation)]"

text \<open>
  \<open>submit_edit_operation\<close>, entered once \<open>get_current_user\<close> has authenticated the caller
  as \<open>user_id\<close>. The body has no \<open>raise\<close>: the result is always \<open>Inr operation_id\<close>.
  The call of \<open>broadcast_to_twin\<close> passes no \<open>exclude_session\<close>, that is the default \<open>None\<close>.
\<close>

definition submit_edit_operation :: "EditOperation \<Rightarrow> uuid \<Rightarrow> server \<Rightarrow> (http_error + uuid) \<times> server" where
  "submit_edit_operation operation user_id s =
     (let operation_id = uuid_counter (locks s);
          s1 = s\<lparr>locks := (locks s)\<lparr>uuid_counter := Suc operation_id\<rparr>\<rparr>;
          s2 = s1\<lparr>edit_operations := edit_operations s1 @
                 [\<lparr>er_operation_id = operation_id, er_twin_id = eo_twin_id operation,
                   er_user_id = user_id, er_operation_type = eo_operation_type operation,
                   er_component_path = eo_component_path operation,
                   er_operation_data = eo_operation_data operation,
                   er_vector_clock = (case eo_vector_clock operation of
                                        None \<Rightarrow> [] | Some vc \<Rightarrow> vc)\<rparr>]\<rparr>;
          s3 = s2\<lparr>manager := broadcast_to_twin (eo_twin_id operation)
                                (edit_operation_message operation_id user_id operation) None
                                (manager s2)\<rparr>
      in (Inr operation_id, s3))"


subsection \<open>Scenario of the edit pipeline\<close>

text \<open>
  Sessions \<open>S1\<close>, \<open>S2\<close>, \<open>S3\<close> of users 1, 2, 3 are connected, their peers alive, and
  subscribed to twin 7; nobody holds a lock.
\<close>

definition fresh_socket :: websocket where
  "fresh_socket = \<lparr>ws_alive = True, ws_sent = []\<rparr>"

definition three_sessions :: server where
  "three_sessions =
     \<lparr>locks = initial_state, edit_operations = [],
      manager = subscribe_to_twin ''S3'' 7 (subscribe_to_twin ''S2'' 7 (subscribe_to_twin ''S1'' 7
                 (connect fresh_socket ''S3'' 3 (connect fresh_socket ''S2'' 2
                   (connect fresh_socket ''S1'' 1 empty_manager)))))\<rparr>"

definition bolt_edit :: EditOperation where
  "bolt_edit = \<lparr>eo_twin_id = 7, eo_operation_type = ''update'',
                 eo_component_path = ''chassis.bolt1'', eo_operation_data = ''{}'',
                 eo_vector_clock = None\<rparr>"


section \<open>Maintenance core (agent.py)\<close>

text \<open>
  Python floats are idealised as real numbers. The one special value that arises
  structurally, the \<open>nan\<close> that \<open>np.mean\<close> gives on an empty selection, is carried as
  \<open>None\<close> of the option type. SQL \<open>NULL\<close> in a fetched row is \<open>None\<close> as well.
\<close>

subsection \<open>Configuration\<close>

definition VIBRATION_CRITICAL :: real where
  "VIBRATION_CRITICAL = 0.8"

definition TEMPERATURE_CRITICAL :: real where
  "TEMPERATURE_CRITICAL = 95"

subsection \<open>Rows and records\<close>

text \<open>The columns of \<open>telemetry_data\<close> that the assessor reads.\<close>

record telemetry_row =
  vibration_x_g :: "real option"
  vibration_y_g :: "real option"
  vibration_z_g :: "real option"
  temperature_c :: "real option"
  rpm :: "real option"
  tool_wear_percent :: "real option"

text \<open>The column of \<open>machine_nodes\<close> that the assessor reads; a date is a day number.\<close>

record machine_node_row =
  last_maintenance_date :: "int option"

record NodeHealth =
  nh_node_id :: string
  nh_status :: string
  nh_health_score :: real
  nh_vibration_level :: "real option"
  nh_temperature :: "real option"
  nh_rpm :: "real option"
  nh_tool_wear :: "real option"
  nh_last_maintenance_days :: int
  nh_predicted_failure_hours :: "real option"
  nh_anomaly_score :: real

subsection \<open>Helpers standing for Python and numpy built-ins\<close>

text \<open>Truth value of a fetched number: \<open>None\<close> and \<open>0.0\<close> are false.\<close>

definition truthy :: "real option \<Rightarrow> bool" where
  "truthy v = (case v of None \<Rightarrow> False | Some x \<Rightarrow> x \<noteq> 0)"

text \<open>\<open>np.mean\<close>: \<open>nan\<close> on the empty list.\<close>

definition np_mean :: "real list \<Rightarrow> real option" where
  "np_mean xs = (if xs = [] then None else Some (sum_list xs / real (length xs)))"

text \<open>\<open>[t[col] for t in telemetry if t[col]]\<close>.\<close>

definition truthy_values :: "(telemetry_row \<Rightarrow> real option) \<Rightarrow> telemetry_row list \<Rightarrow> real list" where
  "truthy_values col telemetry =
     List.map_filter (\<lambda>t. if truthy (col t) then col t else None) telemetry"

text \<open>
  The comprehension
  \<open>[np.sqrt(x**2 + y**2 + z**2) for t in rows if all([x, y, z])]\<close>
  shared by \<open>assess_node_health\<close> and \<open>predict_failure_time\<close>.
\<close>

definition vibration_magnitude :: "telemetry_row \<Rightarrow> real option" where
  "vibration_magnitude t =
     (case (vibration_x_g t, vibration_y_g t, vibration_z_g t) of
        (Some x, Some y, Some z) \<Rightarrow>
          if truthy (Some x) \<and> truthy (Some y) \<and> truthy (Some z)
          then Some (sqrt (x\<^sup>2 + y\<^sup>2 + z\<^sup>2)) else None
      | _ \<Rightarrow> None)"

definition vibration_magnitudes :: "telemetry_row list \<Rightarrow> real list" where
  "vibration_magnitudes rows = List.map_filter vibration_magnitude rows"

subsection \<open>calculate_health_score\<close>

text \<open>
  The four partial scores are the local variables of \<open>calculate_health_score\<close>. On a
  \<open>nan\<close> argument \<open>max(0, nan)\<close> is \<open>0\<close>, Python's \<open>max\<close> keeping its first argument
  unless a later one compares greater.
\<close>

definition vib_score :: "real option \<Rightarrow> real" where
  "vib_score vibration =
     (case vibration of
        None \<Rightarrow> 0
      | Some v \<Rightarrow> max 0 (100 - (v / VIBRATION_CRITICAL) * 100))"

definition temp_score :: "real option \<Rightarrow> real" where
  "temp_score temperature =
     (case temperature of
        None \<Rightarrow> 0
      | Some t \<Rightarrow> max 0 (100 - (t / TEMPERATURE_CRITICAL) * 100))"

definition wear_score :: "real option \<Rightarrow> real" where
  "wear_score tool_wear =
     (case tool_wear of
        None \<Rightarrow> 0
      | Some w \<Rightarrow> max 0 (100 - w))"

definition maint_score :: "int \<Rightarrow> real" where
  "maint_score days_since_maintenance = 100 * exp (- real_of_int days_since_maintenance / 180)"

definition calculate_health_score :: "real option \<Rightarrow> real option \<Rightarrow> real option \<Rightarrow> real option \<Rightarrow>
    int \<Rightarrow> real" where
  "calculate_health_score vibration temperature rpm_value tool_wear days_since_maintenance =
     (let health_score =
            0.3 * vib_score vibration + 0.25 * temp_score temperature
            + 0.25 * wear_score tool_wear + 0.2 * maint_score days_since_maintenance
      in max 0 (min 100 health_score))"

subsection \<open>predict_failure_time\<close>

text \<open>
  The result \<open>None\<close> is Python's \<open>return None\<close>. Where \<open>np.mean(vibrations)\<close> is taken
  the list has at least two elements, so the mean is the sum over the length.
\<close>

definition predict_failure_time :: "string \<Rightarrow> telemetry_row list \<Rightarrow> real option" where
  "predict_failure_time node_id recent_data =
     (if recent_data = [] then None
      else let vibrations = vibration_magnitudes recent_data
           in if length vibrations < 2 then None
              else let avg_vib = sum_list vibrations / real (length vibrations)
                   in if avg_vib \<ge> VIBRATION_CRITICAL then Some 0
                      else Some (max 0 (720 * (1 - avg_vib / VIBRATION_CRITICAL))))"

subsection \<open>assess_node_health\<close>

text \<open>
  \<open>telemetry\<close> is the result of the five-minute query, \<open>node_info\<close> the result of the
  \<open>machine_nodes\<close> lookup and \<open>today\<close> the day number of \<open>datetime.now().date()\<close>.
\<close>

definition days_since :: "machine_node_row option \<Rightarrow> int \<Rightarrow> int" where
  "days_since node_info today =
     (case node_info of
        None \<Rightarrow> 0
      | Some row \<Rightarrow>
          (case last_maintenance_date row of
             None \<Rightarrow> 0
           | Some d \<Rightarrow> today - d))"

definition assess_node_health :: "string \<Rightarrow> telemetry_row list \<Rightarrow> machine_node_row option \<Rightarrow> int \<Rightarrow>
    NodeHealth" where
  "assess_node_health node_id telemetry node_info today =
     (if telemetry = []
      then \<lparr>nh_node_id = node_id, nh_status = ''unknown'', nh_health_score = 0,
            nh_vibration_level = Some 0, nh_temperature = Some 0, nh_rpm = Some 0,
            nh_tool_wear = Some 0, nh_last_maintenance_days = 9999,
            nh_predicted_failure_hours = None, nh_anomaly_score = 0\<rparr>
      else
        let avg_vibration = np_mean (vibration_magnitudes telemetry);
            avg_temp = np_mean (truthy_values temperature_c telemetry);
            avg_rpm = np_mean (truthy_values rpm telemetry);
            avg_tool_wear = np_mean (truthy_values tool_wear_percent telemetry);
            days_since_maintenance = days_since node_info today;
            health_score = calculate_health_score avg_vibration avg_temp avg_rpm avg_tool_wear
                             days_since_maintenance;
            predicted_failure = predict_failure_time node_id telemetry
        in \<lparr>nh_node_id = node_id, nh_status = ''online'', nh_health_score = health_score,
             nh_vibration_level = avg_vibration, nh_temperature = avg_temp, nh_rpm = avg_rpm,
             nh_tool_wear = avg_tool_wear, nh_last_maintenance_days = days_since_maintenance,
             nh_predicted_failure_hours = predicted_failure, nh_anomaly_score = 0\<rparr>)"

subsection \<open>Tickets\<close>

datatype Severity = CRITICAL | HIGH | MEDIUM | LOW

fun severity_value :: "Severity \<Rightarrow> string" where
  "severity_value CRITICAL = ''critical''"
| "severity_value HIGH = ''high''"
| "severity_value MEDIUM = ''medium''"
| "severity_value LOW = ''low''"

text \<open>
  A row of \<open>maintenance_tickets\<close>; instants are whole seconds. The \<open>INSERT\<close> of
  \<open>create_maintenance_ticket\<close> names five columns.
  Modelled from the spec: the table declaration is not part of the sources; a new ticket
  starts with status \<open>open\<close> and \<open>created_at\<close> set to the insertion instant.
\<close>

record ticket_row =
  mt_node_id :: string
  mt_severity :: string
  mt_title :: string
  mt_description :: string
  mt_diagnostic_data :: string
  mt_status :: string
  mt_created_at :: int

text \<open>The \<open>WHERE\<close> clause of the duplicate lookup; 24 hours are 86400 seconds.\<close>

definition is_duplicate :: "int \<Rightarrow> string \<Rightarrow> string \<Rightarrow> ticket_row \<Rightarrow> bool" where
  "is_duplicate now node_id title r =
     (mt_node_id r = node_id \<and> mt_title r = title
      \<and> (mt_status r = ''open'' \<or> mt_status r = ''acknowledged'')
      \<and> mt_created_at r > now - 86400)"

definition create_maintenance_ticket :: "int \<Rightarrow> string \<Rightarrow> Severity \<Rightarrow> string \<Rightarrow> string \<Rightarrow> string \<Rightarrow>
    ticket_row list \<Rightarrow> ticket_row list" where
  "create_maintenance_ticket now node_id severity title description diagnostic_data tickets =
     (case find (is_duplicate now node_id title) tickets of
        Some existing \<Rightarrow> tickets
      | None \<Rightarrow>
          tickets @ [\<lparr>mt_node_id = node_id, mt_severity = severity_value severity,
                       mt_title = title, mt_description = description,
                       mt_diagnostic_data = diagnostic_data, mt_status = ''open'',
                       mt_created_at = now\<rparr>])"

text \<open>The number of tickets of a node with a given title.\<close>

definition ticket_count :: "string \<Rightarrow> string \<Rightarrow> ticket_row list \<Rightarrow> nat" where
  "ticket_count node_id title tickets =
     length (filter (\<lambda>r. mt_node_id r = node_id \<and> mt_title r = title) tickets)"

subsection \<open>Scenarios of the maintenance core\<close>

text \<open>A telemetry sample with vibration \<open>(0.6, 0.8, 2.4)\<close>, of magnitude \<open>2.6\<close>.\<close>

definition loud_sample :: telemetry_row where
  "loud_sample = \<lparr>vibration_x_g = Some 0.6, vibration_y_g = Some 0.8, vibration_z_g = Some 2.4,
                   temperature_c = Some 60, rpm = Some 2000, tool_wear_percent = Some 30\<rparr>"

text \<open>A sample with vibration \<open>(12/65, 16/65, 48/65)\<close>, of magnitude \<open>0.8\<close>.\<close>

definition edge_sample :: telemetry_row where
  "edge_sample = \<lparr>vibration_x_g = Some (12/65), vibration_y_g = Some (16/65),
                   vibration_z_g = Some (48/65),
                   temperature_c = Some 60, rpm = Some 2000, tool_wear_percent = Some 30\<rparr>"

text \<open>A sample with vibration \<open>(0.12, 0.16, 0.48)\<close>, of magnitude \<open>0.52\<close>.\<close>

definition quiet_sample :: telemetry_row where
  "quiet_sample = \<lparr>vibration_x_g = Some 0.12, vibration_y_g = Some 0.16, vibration_z_g = Some 0.48,
                    temperature_c = Some 60, rpm = Some 2000, tool_wear_percent = Some 30\<rparr>"

definition vibration_title :: string where
  "vibration_title = ''Critical vibration: 0.85g (limit: 0.8g)''"

text \<open>The table after the first ticket for node \<open>N\<close> was created at second 1000.\<close>

definition first_ticket :: "ticket_row list" where
  "first_ticket = create_maintenance_ticket 1000 ''N'' CRITICAL vibration_title ''d'' ''{}'' []"

section \<open>Properties of the lock manager\<close>

subsection \<open>Auxiliary facts\<close>

lemma redis_get_counter [simp]: "redis_get (s\<lparr>uuid_counter := n\<rparr>) k = redis_get s k"
  by (simp add: redis_get_def split: option.splits)

lemma redis_get_locks [simp]: "redis_get (s\<lparr>edit_locks := rows\<rparr>) k = redis_get s k"
  by (simp add: redis_get_def split: option.splits)

lemma fetch_lock_None: "(fetch_lock s lid = None) = (lid \<notin> el_lock_id ` set (edit_locks s))"
  by (auto simp: fetch_lock_def find_None_iff)

lemmas lock_defs = acquire_lock_def acquire_store_def redis_set_nx_ex_def redis_get_def
  redis_delete_def redis_expire_def release_lock_def heartbeat_lock_def fetch_lock_def
  initial_state_def advance_def Let_def

lemma shared_held_eval: "shared_held =
  \<lparr>redis = [7 \<mapsto> (\<lparr>ld_lock_id = 0, ld_twin_id = 7, ld_user_id = 1, ld_session_id = 1,
       ld_components = [''a''], ld_lock_type = ''shared'', ld_acquired_at = 0,
       ld_expires_at = 300\<rparr>, 300)],
    edit_locks = [\<lparr>el_lock_id = 0, el_twin_id = 7, el_user_id = 1, el_session_id = 1,
       el_lock_type = ''shared'', el_locked_components = [''a''], el_expires_at = 300,
       el_heartbeat_at = 0, el_is_active = True\<rparr>], clock = 0, uuid_counter = 1\<rparr>"
  by (simp add: shared_held_def lock_defs)

lemma second_holder_eval: "second_holder =
  \<lparr>redis = [7 \<mapsto> (\<lparr>ld_lock_id = 1, ld_twin_id = 7, ld_user_id = 2, ld_session_id = 2,
       ld_components = [''chassis.bolt1''], ld_lock_type = ''exclusive'', ld_acquired_at = 0,
       ld_expires_at = 300\<rparr>, 300)],
    edit_locks = [\<lparr>el_lock_id = 0, el_twin_id = 7, el_user_id = 1, el_session_id = 1,
       el_lock_type = ''exclusive'', el_locked_components = [''chassis.bolt1''],
       el_expires_at = 300, el_heartbeat_at = 0, el_is_active = False\<rparr>,
       \<lparr>el_lock_id = 1, el_twin_id = 7, el_user_id = 2, el_session_id = 2,
       el_lock_type = ''exclusive'', el_locked_components = [''chassis.bolt1''],
       el_expires_at = 300, el_heartbeat_at = 0, el_is_active = True\<rparr>],
    clock = 0, uuid_counter = 2\<rparr>"
  by (simp add: second_holder_def lock_defs)

lemma third_holder_eval: "third_holder =
  \<lparr>redis = [7 \<mapsto> (\<lparr>ld_lock_id = 2, ld_twin_id = 7, ld_user_id = 3, ld_session_id = 3,
       ld_components = [''chassis.bolt1''], ld_lock_type = ''exclusive'', ld_acquired_at = 0,
       ld_expires_at = 300\<rparr>, 300)],
    edit_locks = [\<lparr>el_lock_id = 0, el_twin_id = 7, el_user_id = 1, el_session_id = 1,
       el_lock_type = ''exclusive'', el_locked_components = [''chassis.bolt1''],
       el_expires_at = 300, el_heartbeat_at = 0, el_is_active = False\<rparr>,
       \<lparr>el_lock_id = 1, el_twin_id = 7, el_user_id = 2, el_session_id = 2,
       el_lock_type = ''exclusive'', el_locked_components = [''chassis.bolt1''],
       el_expires_at = 300, el_heartbeat_at = 0, el_is_active = True\<rparr>,
       \<lparr>el_lock_id = 2, el_twin_id = 7, el_user_id = 3, el_session_id = 3,
       el_lock_type = ''exclusive'', el_locked_components = [''chassis.bolt1''],
       el_expires_at = 300, el_heartbeat_at = 0, el_is_active = True\<rparr>],
    clock = 0, uuid_counter = 3\<rparr>"
  by (simp add: third_holder_def second_holder_eval lock_defs)

lemma key_lapsed_eval: "key_lapsed =
  \<lparr>redis = [7 \<mapsto> (\<lparr>ld_lock_id = 0, ld_twin_id = 7, ld_user_id = 1, ld_session_id = 1,
       ld_components = [''chassis.bolt1''], ld_lock_type = ''exclusive'', ld_acquired_at = 0,
       ld_expires_at = 300\<rparr>, 300)],
    edit_locks = [\<lparr>el_lock_id = 0, el_twin_id = 7, el_user_id = 1, el_session_id = 1,
       el_lock_type = ''exclusive'', el_locked_components = [''chassis.bolt1''],
       el_expires_at = 300, el_heartbeat_at = 0, el_is_active = True\<rparr>],
    clock = 301, uuid_counter = 1\<rparr>"
  by (simp add: key_lapsed_def lock_defs)

lemma reachable_second_holder: "reachable second_holder"
  unfolding second_holder_def
  by (intro reachable.intros) simp_all

lemma reachable_third_holder: "reachable third_holder"
  unfolding third_holder_def
  by (intro reachable.intros reachable_second_holder) simp_all

lemma key_held_eval: "key_held =
  \<lparr>redis = [7 \<mapsto> (\<lparr>ld_lock_id = 0, ld_twin_id = 7, ld_user_id = 1, ld_session_id = 1,
       ld_components = [''chassis.bolt1''], ld_lock_type = ''exclusive'', ld_acquired_at = 0,
       ld_expires_at = 300\<rparr>, 300)],
    edit_locks = [\<lparr>el_lock_id = 0, el_twin_id = 7, el_user_id = 1, el_session_id = 1,
       el_lock_type = ''exclusive'', el_locked_components = [''chassis.bolt1''],
       el_expires_at = 300, el_heartbeat_at = 0, el_is_active = True\<rparr>],
    clock = 200, uuid_counter = 1\<rparr>"
  by (simp add: key_held_def lock_defs)

lemma find_map_preserve:
  "(\<And>x. P (f x) = P x) \<Longrightarrow> find P (map f xs) = map_option f (find P xs)"
  by (induction xs) auto

text \<open>
  The row \<open>heartbeat_lock\<close> fetches after its update has the lock id and the twin of the
  row fetched before it.
\<close>

lemma heartbeat_lock_unfolded:
  "heartbeat_lock lock_id s =
     (let s1 = s\<lparr>edit_locks :=
                   map (\<lambda>r. if el_lock_id r = lock_id \<and> el_is_active r
                            then r\<lparr>el_heartbeat_at := clock s\<rparr> else r)
                       (edit_locks s)\<rparr>
      in case fetch_lock s lock_id of
           None \<Rightarrow> (None, s1)
         | Some lock \<Rightarrow> (None, redis_expire (el_twin_id lock) 300 s1))"
proof -
  have "find (\<lambda>r. el_lock_id r = lock_id)
          (map (\<lambda>r. if el_lock_id r = lock_id \<and> el_is_active r
                    then r\<lparr>el_heartbeat_at := clock s\<rparr> else r) (edit_locks s))
        = map_option (\<lambda>r. if el_lock_id r = lock_id \<and> el_is_active r
                    then r\<lparr>el_heartbeat_at := clock s\<rparr> else r)
            (find (\<lambda>r. el_lock_id r = lock_id) (edit_locks s))"
    by (rule find_map_preserve) simp
  then show ?thesis
    by (cases "find (\<lambda>r. el_lock_id r = lock_id) (edit_locks s)")
       (simp_all add: heartbeat_lock_def fetch_lock_def Let_def)
qed

subsection \<open>Conflict rule of acquire\<close>

text \<open>
  What \<open>acquire_lock\<close> returns in general: a fresh lock id when no unexpired record is
  stored under the twin's key, and \<open>None\<close> (Conflict) whenever one is, since
  \<open>SET ... NX\<close> refuses every request that got past the two compatibility tests.
\<close>

lemma acquire_lock_result:
  "fst (acquire_lock twin_id user_id session_id components lock_type timeout s) =
     (if redis_get s twin_id = None then Some (uuid_counter s) else None)"
  by (auto simp: acquire_lock_def acquire_store_def redis_set_nx_ex_def Let_def
      split: option.splits)

text \<open>
  Claim C2 at a failing input. Twin 7 has one holder, shared, on component \<open>a\<close>. A shared
  request for component \<open>b\<close> is compatible by the claim's rules and passes both tests of
  \<open>acquire_lock\<close> (the request is not exclusive, the holder is not exclusive), yet the
  result is \<open>None\<close>, Conflict: the record of the twin exists and \<open>SET ... NX\<close> stores
  nothing.
\<close>

theorem shared_after_shared_conflicts:
  "map el_lock_type (edit_locks shared_held) = [''shared'']
   \<and> map el_locked_components (edit_locks shared_held) = [[''a'']]
   \<and> map_option ld_lock_type (redis_get shared_held 7) = Some ''shared''
   \<and> map_option ld_components (redis_get shared_held 7) = Some [''a'']
   \<and> fst (acquire_lock 7 2 2 [''b''] ''shared'' 300 shared_held) = None"
  by (simp add: shared_held_eval lock_defs)

subsection \<open>Exclusion invariant\<close>

text \<open>
  Claim C3 at a failing input: acquire (lock 0), release 0, acquire (lock 1), release 0
  once more, acquire (lock 2), all exclusive on \<open>chassis.bolt1\<close> of twin 7. The second
  release of the stale id 0 deletes the key that records lock 1, so the third acquire
  succeeds: the active rows are locks 1 and 2, both exclusive, on the same twin and the
  same component.
\<close>

theorem stale_release_two_active_exclusive:
  "map (\<lambda>r. (el_lock_id r, el_twin_id r, el_lock_type r, el_locked_components r))
       (active_locks third_holder)
     = [(1, 7, ''exclusive'', [''chassis.bolt1'']), (2, 7, ''exclusive'', [''chassis.bolt1''])]"
  by (simp add: third_holder_eval active_locks_def)

text \<open>That state is reachable, and the exclusion property fails in it.\<close>

lemma third_holder_breaks_exclusion:
  "reachable third_holder \<and> \<not> exclusion_holds (active_locks third_holder)"
proof
  show "reachable third_holder" by (rule reachable_third_holder)
  show "\<not> exclusion_holds (active_locks third_holder)"
    by (simp add: third_holder_eval active_locks_def exclusion_holds_def overlapping_def)
qed

subsection \<open>Heartbeat\<close>

text \<open>
  Claim C5, as the code has it: \<open>heartbeat_lock\<close> returns no value in any state, so it never
  reports Expired. Its effects are: \<open>heartbeat_at\<close> of the active rows with the lock id
  becomes the current instant and no other row changes; when the twin's key has expired
  it stays absent; when a row with the lock id exists and its twin's key is present, the
  key's time to live restarts at 300 seconds.
\<close>

theorem heartbeat_lock_silent:
  "fst (heartbeat_lock lock_id s) = None
   \<and> edit_locks (snd (heartbeat_lock lock_id s)) =
       map (\<lambda>r. if el_lock_id r = lock_id \<and> el_is_active r
                then r\<lparr>el_heartbeat_at := clock s\<rparr> else r) (edit_locks s)
   \<and> (redis_get s twin_id = None \<longrightarrow>
        redis_get (snd (heartbeat_lock lock_id s)) twin_id = None)
   \<and> (\<forall>lock record. fetch_lock s lock_id = Some lock
         \<and> redis_get s (el_twin_id lock) = Some record \<longrightarrow>
        redis (snd (heartbeat_lock lock_id s)) (el_twin_id lock) = Some (record, clock s + 300))"
  by (auto simp: heartbeat_lock_unfolded Let_def redis_expire_def redis_get_def
      split: option.splits if_splits)

text \<open>
  With the key lapsed at second 301 the heartbeat stamps the row and leaves the key
  absent; with the key present at second 200 it moves the expiry to second 500.
\<close>

theorem heartbeat_lock_silent_witness:
  "redis_get key_lapsed 7 = None
   \<and> fst (heartbeat_lock 0 key_lapsed) = None
   \<and> map el_heartbeat_at (edit_locks (snd (heartbeat_lock 0 key_lapsed))) = [301]
   \<and> redis_get (snd (heartbeat_lock 0 key_lapsed)) 7 = None
   \<and> fst (heartbeat_lock 0 key_held) = None
   \<and> map el_heartbeat_at (edit_locks (snd (heartbeat_lock 0 key_held))) = [200]
   \<and> map_option snd (redis (snd (heartbeat_lock 0 key_held)) 7) = Some 500"
proof -
  have f: "fetch_lock key_held 0 =
     Some \<lparr>el_lock_id = 0, el_twin_id = 7, el_user_id = 1, el_session_id = 1,
       el_lock_type = ''exclusive'', el_locked_components = [''chassis.bolt1''],
       el_expires_at = 300, el_heartbeat_at = 0, el_is_active = True\<rparr>"
    by (simp add: key_held_eval fetch_lock_def)
  have g: "redis_get key_held 7 =
     Some \<lparr>ld_lock_id = 0, ld_twin_id = 7, ld_user_id = 1, ld_session_id = 1,
       ld_components = [''chassis.bolt1''], ld_lock_type = ''exclusive'', ld_acquired_at = 0,
       ld_expires_at = 300\<rparr>"
    by (simp add: key_held_eval redis_get_def)
  have c: "clock key_held = 200" "clock key_lapsed = 301"
    by (simp_all add: key_held_eval key_lapsed_eval)
  have l: "redis_get key_lapsed 7 = None"
    by (simp add: key_lapsed_eval redis_get_def)
  have r: "map el_heartbeat_at (edit_locks (snd (heartbeat_lock 0 key_lapsed))) = [301]"
    "map el_heartbeat_at (edit_locks (snd (heartbeat_lock 0 key_held))) = [200]"
    using heartbeat_lock_silent [of 0 key_lapsed 7] heartbeat_lock_silent [of 0 key_held 7]
    by (simp_all add: key_lapsed_eval key_held_eval)
  show ?thesis
    using heartbeat_lock_silent [of 0 key_lapsed 7] heartbeat_lock_silent [of 0 key_held 7]
      f g l r
    by (simp add: c)
qed

text \<open>
  Against C5 as stated: lock 0 is active, its key lapsed one second ago, and the heartbeat
  does not return Expired.
\<close>

theorem heartbeat_on_lapsed_key_not_expired:
  "map el_is_active (edit_locks key_lapsed) = [True]
   \<and> redis_get key_lapsed 7 = None
   \<and> fst (heartbeat_lock 0 key_lapsed) \<noteq> Some Expired"
  by (simp add: key_lapsed_eval lock_defs)

subsection \<open>Release\<close>

text \<open>
  Claim C10: \<open>release_lock\<close> answers \<open>False\<close> (404 at the endpoint) only when no row of
  \<open>edit_locks\<close> carries the lock id. Whenever a row exists, active or not, the endpoint
  answers \<open>released\<close> and the key of that row's twin is gone afterwards, whichever lock the
  key recorded.
\<close>

theorem release_lock_ignores_is_active:
  "(fst (release_lock lock_id s) = False \<longleftrightarrow> lock_id \<notin> el_lock_id ` set (edit_locks s))
   \<and> (fst (http_release_lock lock_id s) = Inl NotFound
        \<longleftrightarrow> lock_id \<notin> el_lock_id ` set (edit_locks s))
   \<and> (\<forall>lock. fetch_lock s lock_id = Some lock \<longrightarrow>
         fst (http_release_lock lock_id s) = Inr ''released''
         \<and> redis_get (snd (http_release_lock lock_id s)) (el_twin_id lock) = None)"
proof -
  have a: "(fst (release_lock lock_id s) = False) = (fetch_lock s lock_id = None)"
    by (auto simp: release_lock_def Let_def split: option.splits)
  have b: "(fst (http_release_lock lock_id s) = Inl NotFound) = (fetch_lock s lock_id = None)"
    by (auto simp: http_release_lock_def release_lock_def Let_def split: option.splits)
  have c: "fetch_lock s lock_id = Some lock \<Longrightarrow>
         fst (http_release_lock lock_id s) = Inr ''released''
         \<and> redis_get (snd (http_release_lock lock_id s)) (el_twin_id lock) = None" for lock
    by (simp add: http_release_lock_def release_lock_def Let_def redis_delete_def redis_get_def)
  show ?thesis using a b c by (simp add: fetch_lock_None)
qed

text \<open>
  Lock 0 was released long ago and lock 1 is the live lock of twin 7: releasing lock 0
  again answers \<open>released\<close> and removes the key that recorded lock 1. An id without a row
  gives 404.
\<close>

theorem release_lock_ignores_is_active_witness:
  "fetch_lock second_holder 0 =
     Some \<lparr>el_lock_id = 0, el_twin_id = 7, el_user_id = 1, el_session_id = 1,
       el_lock_type = ''exclusive'', el_locked_components = [''chassis.bolt1''],
       el_expires_at = 300, el_heartbeat_at = 0, el_is_active = False\<rparr>
   \<and> map el_lock_id (live_locks second_holder) = [1]
   \<and> fst (http_release_lock 0 second_holder) = Inr ''released''
   \<and> redis_get (snd (http_release_lock 0 second_holder)) 7 = None
   \<and> fst (http_release_lock 5 second_holder) = Inl NotFound"
proof -
  have f: "fetch_lock second_holder 0 =
     Some \<lparr>el_lock_id = 0, el_twin_id = 7, el_user_id = 1, el_session_id = 1,
       el_lock_type = ''exclusive'', el_locked_components = [''chassis.bolt1''],
       el_expires_at = 300, el_heartbeat_at = 0, el_is_active = False\<rparr>"
    by (simp add: second_holder_eval fetch_lock_def)
  have l: "map el_lock_id (live_locks second_holder) = [1]"
    by (simp add: second_holder_eval live_locks_def holds_key_def redis_get_def)
  have n: "5 \<notin> el_lock_id ` set (edit_locks second_holder)"
    by (simp add: second_holder_eval)
  show ?thesis
    using release_lock_ignores_is_active [of 0 second_holder]
      release_lock_ignores_is_active [of 5 second_holder] f l n
    by simp
qed

section \<open>Properties of the edit pipeline\<close>

subsection \<open>Auxiliary facts\<close>

lemma three_sessions_manager:
  "manager three_sessions =
     \<lparr>active_connections =
        [''S1'' \<mapsto> fresh_socket, ''S2'' \<mapsto> fresh_socket, ''S3'' \<mapsto> fresh_socket],
      user_sessions = [1 \<mapsto> [''S1''], 2 \<mapsto> [''S2''], 3 \<mapsto> [''S3'']],
      twin_subscribers = [7 \<mapsto> [''S1'', ''S2'', ''S3'']]\<rparr>"
  by (simp add: three_sessions_def subscribe_to_twin_def connect_def empty_manager_def
      set_add_def)

lemma three_sessions_rest:
  "locks three_sessions = initial_state" "edit_operations three_sessions = []"
  by (simp_all add: three_sessions_def)


text \<open>
  The message of an edit operation is never serialisable: \<open>operation.dict()\<close> holds the
  twin id as a \<open>UUID\<close> object.
\<close>

lemma edit_operation_message_unserializable:
  "\<not> json_serializable (edit_operation_message operation_id user_id operation)"
  by (simp add: edit_operation_message_def EditOperation_dict_def)

text \<open>
  Broadcasting a message that is not serialisable changes no connection and marks every
  visited subscriber with a registered connection as disconnected.
\<close>

lemma broadcast_loop_unserializable:
  "\<not> json_serializable msg \<Longrightarrow>
   broadcast_loop msg ex subs conns d =
     (conns, d @ filter (\<lambda>sid. Some sid \<noteq> ex \<and> conns sid \<noteq> None) subs)"
  by (induction subs arbitrary: d) (auto simp: send_json_def split: option.splits)

lemma edit_broadcast_delivers_nothing:
  "active_connections (manager (snd (submit_edit_operation operation user_id s)))
     = active_connections (manager s)"
  by (simp add: submit_edit_operation_def Let_def broadcast_to_twin_def
      broadcast_loop_unserializable [OF edit_operation_message_unserializable]
      split: option.splits)

lemma edit_broadcast_prunes:
  "twin_subscribers (manager s) (eo_twin_id operation) = Some subscribers \<Longrightarrow>
   twin_subscribers (manager (snd (submit_edit_operation operation user_id s)))
       (eo_twin_id operation)
     = Some (filter (\<lambda>sid. active_connections (manager s) sid = None) subscribers)"
  by (auto simp: submit_edit_operation_def Let_def broadcast_to_twin_def
      broadcast_loop_unserializable [OF edit_operation_message_unserializable]
      intro: filter_cong)

subsection \<open>Authorisation of edit operations\<close>




subsection \<open>Fan-out of an accepted edit operation\<close>

text \<open>
  Claim C4 at a failing input: sessions \<open>S1\<close>, \<open>S2\<close>, \<open>S3\<close> are subscribed to twin 7 with
  live peers and user 1 posts an edit. \<open>json.dumps\<close> raises on the message for every
  subscriber, so no session receives a frame (\<open>S2\<close> and \<open>S3\<close> should each receive one),
  and the error branch of \<open>broadcast_to_twin\<close> removes all three from the subscribers
  of the twin.
\<close>

theorem edit_operation_never_delivered:
  "active_connections (manager (snd (submit_edit_operation bolt_edit 1 three_sessions))) ''S1''
       = Some \<lparr>ws_alive = True, ws_sent = []\<rparr>
   \<and> active_connections (manager (snd (submit_edit_operation bolt_edit 1 three_sessions))) ''S2''
       = Some \<lparr>ws_alive = True, ws_sent = []\<rparr>
   \<and> active_connections (manager (snd (submit_edit_operation bolt_edit 1 three_sessions))) ''S3''
       = Some \<lparr>ws_alive = True, ws_sent = []\<rparr>
   \<and> twin_subscribers (manager three_sessions) 7 = Some [''S1'', ''S2'', ''S3'']
   \<and> twin_subscribers (manager (snd (submit_edit_operation bolt_edit 1 three_sessions))) 7
       = Some []"
  by (simp add: submit_edit_operation_def Let_def three_sessions_manager broadcast_to_twin_def
      send_json_def fresh_socket_def three_sessions_rest initial_state_def bolt_edit_def
      edit_operation_message_def EditOperation_dict_def)

section \<open>Properties of the maintenance core\<close>

subsection \<open>Auxiliary facts\<close>

lemma exp_sixth_bounds:
  "84647 / 100000 < exp (- (1/6) :: real)" "exp (- (1/6) :: real) < 84649 / 100000"
proof -
  obtain t :: real where t: "\<bar>t\<bar> \<le> \<bar>- (1/6)\<bar>"
    and e: "exp (- (1/6)) = (\<Sum>m<5. (- (1/6)) ^ m / fact m) + exp t / fact 5 * (- (1/6)) ^ 5"
    using Maclaurin_exp_le [of "- (1/6) :: real" 5] by blast
  have s: "(\<Sum>m<5. (- (1/6) :: real) ^ m / fact m) = 26329 / 31104"
    by (simp add: eval_nat_numeral)
  have "t \<le> 1" using t by simp
  then have "exp t \<le> exp 1" by simp
  then have u: "exp t \<le> 3" using exp_le by linarith
  have l: "0 < exp t" by simp
  have r: "exp t / fact 5 * (- (1/6)) ^ 5 = - (exp t / 933120)"
    by (simp add: eval_nat_numeral)
  show "84647 / 100000 < exp (- (1/6) :: real)" unfolding e s r using u l by linarith
  show "exp (- (1/6) :: real) < 84649 / 100000" unfolding e s r using u l by linarith
qed

lemma example_scores:
  "vib_score (Some 0.4) = 50" "temp_score (Some 60) = 700 / 19" "wear_score (Some 30) = 70"
  "maint_score 30 = 100 * exp (- (1/6))"
  by (simp_all add: vib_score_def temp_score_def wear_score_def maint_score_def
      VIBRATION_CRITICAL_def TEMPERATURE_CRITICAL_def)

lemma example_health:
  "calculate_health_score (Some 0.4) (Some 60) (Some 2000) (Some 30) 30
     = 3170 / 76 + 20 * exp (- (1/6))"
proof -
  define E where "E = exp (- (1/6) :: real)"
  have b: "84647 / 100000 < E" "E < 84649 / 100000"
    using exp_sixth_bounds by (simp_all add: E_def)
  have h: "calculate_health_score (Some 0.4) (Some 60) (Some 2000) (Some 30) 30
           = max 0 (min 100 (0.3 * 50 + 0.25 * (700 / 19) + 0.25 * 70 + 0.2 * (100 * E)))"
    by (simp only: calculate_health_score_def Let_def example_scores E_def)
  have "max 0 (min 100 (0.3 * 50 + 0.25 * (700 / 19) + 0.25 * 70 + 0.2 * (100 * E)))
            = 3170 / 76 + 20 * E"
    using b by (simp add: max_def min_def)
  then show ?thesis unfolding h E_def .
qed

lemma magnitude_loud: "vibration_magnitude loud_sample = Some (26/10)"
proof -
  have "sqrt ((0.6::real)\<^sup>2 + 0.8\<^sup>2 + 2.4\<^sup>2) = 26/10"
    by (rule real_sqrt_unique) (simp_all add: power2_eq_square)
  then show ?thesis by (simp add: vibration_magnitude_def truthy_def loud_sample_def)
qed

lemma magnitude_quiet: "vibration_magnitude quiet_sample = Some (52/100)"
proof -
  have "sqrt ((0.12::real)\<^sup>2 + 0.16\<^sup>2 + 0.48\<^sup>2) = 52/100"
    by (rule real_sqrt_unique) (simp_all add: power2_eq_square)
  then show ?thesis by (simp add: vibration_magnitude_def truthy_def quiet_sample_def)
qed

lemma magnitude_edge: "vibration_magnitude edge_sample = Some (8/10)"
proof -
  have "sqrt ((12/65::real)\<^sup>2 + (16/65)\<^sup>2 + (48/65)\<^sup>2) = 8/10"
    by (rule real_sqrt_unique) (simp_all add: power2_eq_square)
  then show ?thesis by (simp add: vibration_magnitude_def truthy_def edge_sample_def)
qed

lemmas magnitudes = vibration_magnitudes_def List.map_filter_simps
  magnitude_loud magnitude_quiet magnitude_edge

lemma find_of_list_ex: "list_ex P xs \<Longrightarrow> \<exists>x. find P xs = Some x"
  by (induction xs) auto

lemma first_ticket_eval:
  "first_ticket = [\<lparr>mt_node_id = ''N'', mt_severity = ''critical'',
     mt_title = vibration_title, mt_description = ''d'', mt_diagnostic_data = ''{}'',
     mt_status = ''open'', mt_created_at = 1000\<rparr>]"
  by (simp add: first_ticket_def create_maintenance_ticket_def)

subsection \<open>Days since maintenance\<close>

text \<open>
  Claim C6, as the code has it: when the five-minute window holds no telemetry the
  assessment reports 9999 days, whatever the maintenance date. When the window holds
  telemetry, the days are the calendar days from the last maintenance date to today if
  the date is known, and 0 (not 9999) if the node row or its date is missing.
\<close>

theorem days_since_maintenance_cases:
  "(telemetry = [] \<longrightarrow>
      nh_last_maintenance_days (assess_node_health node_id telemetry node_info today) = 9999)
   \<and> (telemetry \<noteq> [] \<longrightarrow>
        (\<forall>row d. node_info = Some row \<and> last_maintenance_date row = Some d \<longrightarrow>
           nh_last_maintenance_days (assess_node_health node_id telemetry node_info today)
             = today - d)
        \<and> ((node_info = None \<or> (\<exists>row. node_info = Some row \<and> last_maintenance_date row = None))
             \<longrightarrow>
           nh_last_maintenance_days (assess_node_health node_id telemetry node_info today) = 0))"
  by (auto simp: assess_node_health_def Let_def days_since_def)

theorem days_since_maintenance_cases_witness:
  "nh_last_maintenance_days
     (assess_node_health ''node'' [quiet_sample] (Some \<lparr>last_maintenance_date = Some 19970\<rparr>)
        20000) = 30
   \<and> nh_last_maintenance_days
     (assess_node_health ''node'' [quiet_sample] (Some \<lparr>last_maintenance_date = None\<rparr>) 20000) = 0
   \<and> nh_last_maintenance_days (assess_node_health ''node'' [quiet_sample] None 20000) = 0
   \<and> nh_last_maintenance_days
     (assess_node_health ''node'' [] (Some \<lparr>last_maintenance_date = Some 19970\<rparr>) 20000) = 9999"
  using
    days_since_maintenance_cases [of "[quiet_sample]" "''node''"
      "Some \<lparr>last_maintenance_date = Some 19970\<rparr>" 20000]
    days_since_maintenance_cases [of "[quiet_sample]" "''node''"
      "Some \<lparr>last_maintenance_date = None\<rparr>" 20000]
    days_since_maintenance_cases [of "[quiet_sample]" "''node''" None 20000]
    days_since_maintenance_cases [of "[]" "''node''"
      "Some \<lparr>last_maintenance_date = Some 19970\<rparr>" 20000]
  by simp

text \<open>
  Against C6 as stated: with telemetry and an unknown maintenance date the assessment
  reports 0 days, not 9999; without telemetry and a date 30 days back it reports 9999,
  not 30.
\<close>

theorem unknown_date_gives_zero:
  "nh_last_maintenance_days
     (assess_node_health ''node'' [quiet_sample] (Some \<lparr>last_maintenance_date = None\<rparr>) 20000) = 0
   \<and> nh_last_maintenance_days
     (assess_node_health ''node'' [] (Some \<lparr>last_maintenance_date = Some 19970\<rparr>) 20000) = 9999"
  by (simp add: assess_node_health_def Let_def days_since_def)

subsection \<open>Health score of the worked example\<close>

text \<open>
  Claim C7, as the code has it: for vibration 0.4 g, temperature 60, rpm 2000, tool wear
  30 and 30 days since maintenance the partial scores are 50, 36.84 (to two decimals),
  70 and 84.65 (to two decimals), and the composite score is 58.64 to two decimals, not
  55.6.
\<close>

theorem health_score_example:
  "vib_score (Some 0.4) = 50
   \<and> \<bar>temp_score (Some 60) - 36.84\<bar> < 0.005
   \<and> wear_score (Some 30) = 70
   \<and> \<bar>maint_score 30 - 84.65\<bar> < 0.005
   \<and> \<bar>calculate_health_score (Some 0.4) (Some 60) (Some 2000) (Some 30) 30 - 58.64\<bar> < 0.005"
proof -
  define E where "E = exp (- (1/6) :: real)"
  have b: "84647 / 100000 < E" "E < 84649 / 100000"
    using exp_sixth_bounds by (simp_all add: E_def)
  have c1: "\<bar>(700 / 19 :: real) - 3684 / 100\<bar> < 5 / 1000" by linarith
  have c2: "\<bar>100 * E - 8465 / 100\<bar> < 5 / 1000" using b by linarith
  have c3: "\<bar>3170 / 76 + 20 * E - 5864 / 100\<bar> < 5 / 1000" using b by linarith
  show ?thesis
    unfolding example_health example_scores unfolding E_def [symmetric]
    using c1 c2 c3 by simp
qed

text \<open>Against C7 as stated: the composite score is not within 0.1 of 55.6.\<close>

theorem health_score_not_55_6:
  "\<not> \<bar>calculate_health_score (Some 0.4) (Some 60) (Some 2000) (Some 30) 30 - 55.6\<bar> \<le> 0.1"
proof -
  define E where "E = exp (- (1/6) :: real)"
  have b: "84647 / 100000 < E" "E < 84649 / 100000"
    using exp_sixth_bounds by (simp_all add: E_def)
  have "\<not> \<bar>3170 / 76 + 20 * E - 556 / 10\<bar> \<le> 1 / 10" using b by linarith
  then show ?thesis unfolding example_health unfolding E_def [symmetric] by simp
qed

subsection \<open>Short-term failure prediction\<close>

text \<open>
  Claim C8, as the code has it: \<open>predict_failure_time\<close> returns nothing when fewer than two
  samples of the window carry all three vibration axes (present and non-zero). With at
  least two such samples it returns 0 when their mean magnitude is at least
  \<open>VIBRATION_CRITICAL\<close> (also when it is equal), and otherwise
  \<open>720 * (1 - mean / VIBRATION_CRITICAL)\<close> clamped at 0.
\<close>

theorem predict_failure_time_cases:
  "predict_failure_time node_id recent_data =
     (case np_mean (vibration_magnitudes recent_data) of
        None \<Rightarrow> None
      | Some mean \<Rightarrow>
          if length (vibration_magnitudes recent_data) < 2 then None
          else if mean \<ge> VIBRATION_CRITICAL then Some 0
          else Some (max 0 (720 * (1 - mean / VIBRATION_CRITICAL))))"
  by (auto simp: predict_failure_time_def Let_def np_mean_def vibration_magnitudes_def)

theorem predict_failure_time_cases_witness:
  "predict_failure_time ''node'' [loud_sample] = None
   \<and> predict_failure_time ''node'' [loud_sample, quiet_sample, edge_sample, loud_sample] = Some 0
   \<and> predict_failure_time ''node'' [edge_sample, edge_sample] = Some 0
   \<and> predict_failure_time ''node'' [quiet_sample, quiet_sample] = Some 252"
  using predict_failure_time_cases [of "''node''" "[loud_sample]"]
    predict_failure_time_cases [of "''node''"
      "[loud_sample, quiet_sample, edge_sample, loud_sample]"]
    predict_failure_time_cases [of "''node''" "[edge_sample, edge_sample]"]
    predict_failure_time_cases [of "''node''" "[quiet_sample, quiet_sample]"]
  by (simp add: magnitudes np_mean_def VIBRATION_CRITICAL_def)

text \<open>
  Against C8 as stated: the window holds one sample, of magnitude 2.6; the mean over the
  window is 2.6, above \<open>VIBRATION_CRITICAL\<close>, and the predictor returns nothing instead
  of 0.
\<close>

theorem single_sample_no_prediction:
  "np_mean (vibration_magnitudes [loud_sample]) = Some (26/10)
   \<and> 26/10 \<ge> VIBRATION_CRITICAL
   \<and> predict_failure_time ''node'' [loud_sample] = None"
  by (simp add: predict_failure_time_def Let_def np_mean_def magnitudes VIBRATION_CRITICAL_def)

subsection \<open>Ticket deduplication\<close>

text \<open>
  Claim C9: when the table already holds an open or acknowledged ticket for the node and
  title created less than 24 hours before, \<open>create_maintenance_ticket\<close> leaves the table
  as it is; in particular a count of 1 for the pair stays 1.
\<close>

theorem create_maintenance_ticket_dedup:
  assumes "list_ex (is_duplicate now node_id title) tickets"
  shows "create_maintenance_ticket now node_id severity title description diagnostic_data tickets
           = tickets
    \<and> (ticket_count node_id title tickets = 1 \<longrightarrow>
         ticket_count node_id title
           (create_maintenance_ticket now node_id severity title description diagnostic_data
              tickets) = 1)"
  using find_of_list_ex [OF assms] by (auto simp: create_maintenance_ticket_def)

text \<open>The same ticket is emitted again five minutes after the first.\<close>

theorem create_maintenance_ticket_dedup_witness:
  "list_ex (is_duplicate 1300 ''N'' vibration_title) first_ticket
   \<and> ticket_count ''N'' vibration_title first_ticket = 1
   \<and> create_maintenance_ticket 1300 ''N'' CRITICAL vibration_title ''d'' ''{}'' first_ticket
       = first_ticket
   \<and> ticket_count ''N'' vibration_title
       (create_maintenance_ticket 1300 ''N'' CRITICAL vibration_title ''d'' ''{}'' first_ticket)
       = 1"
proof -
  have a: "list_ex (is_duplicate 1300 ''N'' vibration_title) first_ticket"
    by (simp add: first_ticket_eval is_duplicate_def)
  have b: "ticket_count ''N'' vibration_title first_ticket = 1"
    by (simp add: first_ticket_eval ticket_count_def)
  show ?thesis
    using create_maintenance_ticket_dedup [OF a, of CRITICAL "''d''" "''{}''"] a b by simp
qed

end
